theory Spec2Isabelle
  imports Main
begin

section \<open>A model of pydatras' DATRASClient\<close>

text \<open>
  The theory embeds \<^verbatim>\<open>src/pydatras/__init__.py\<close>: the class \<^verbatim>\<open>DATRASClient\<close>
  with its five implemented fetch methods. The two SOAP services, the console and the
  pandas operations the methods call are outside the repository; they are modelled as
  follows.

  \<^item> A remote service is a function from a request and the state of the remote side to
    a response and the next state of the remote side, so that two equal requests may be
    answered differently. A response is \<open>Fault\<close> (the guarded statement raised),
    \<open>Nothing\<close> (the service returned \<^verbatim>\<open>None\<close>) or \<open>Payload\<close> (the service returned
    data).
  \<^item> The world a method runs in holds the state of the remote side, the log of the remote
    calls issued so far and the lines printed so far. Every method takes the world and
    returns the new one.
  \<^item> A table (a pandas \<^verbatim>\<open>DataFrame\<close>) is the list of its rows; a row is the
    association list of column name and value that \<^verbatim>\<open>serialize_object\<close> produces for
    one record; a column that a row does not mention reads as the missing value.
  \<^item> Of pandas, the model takes what the methods use: a table grows by the rows appended
    to it, a column that holds a string has dtype \<^verbatim>\<open>object\<close>, the \<^verbatim>\<open>.str\<close> accessor
    gives the missing value for what is not a string, and the access to a column that does
    not exist raises \<^verbatim>\<open>AttributeError\<close>. Numbers are integers here; that pandas stores
    the integers of a column with missing values as floating point numbers is left out.
    \<^verbatim>\<open>serialize_object\<close> and \<^verbatim>\<open>append\<close> are total: whatever raises inside a
    \<^verbatim>\<open>try\<close>, the call or the handling of its result, is the response \<open>Fault\<close>.
\<close>

subsection \<open>Python values, table cells and tables\<close>

text \<open>The arguments \<^verbatim>\<open>survey\<close>, \<^verbatim>\<open>year\<close> and \<^verbatim>\<open>quarter\<close>: a string, an
  integer, \<^verbatim>\<open>None\<close> or a list of values.\<close>

datatype pyval = PStr string | PInt int | PNone | PList "pyval list"

text \<open>\<^verbatim>\<open>if not isinstance(x, list): x = [x]\<close>\<close>

fun listify :: "pyval \<Rightarrow> pyval list" where
  "listify (PList xs) = xs"
| "listify v = [v]"

fun is_list :: "pyval \<Rightarrow> bool" where
  "is_list (PList xs) = True"
| "is_list v = False"

text \<open>A cell of a table: a string, a number, or the missing value (\<^verbatim>\<open>None\<close> and
  \<^verbatim>\<open>NaN\<close> alike).\<close>

datatype cell = SVal string | IVal int | Null

type_synonym row = "(string \<times> cell) list"
type_synonym table = "row list"

definition cell_at :: "row \<Rightarrow> string \<Rightarrow> cell" where
  "cell_at r c = (case map_of r c of None \<Rightarrow> Null | Some v \<Rightarrow> v)"

definition columns :: "table \<Rightarrow> string list" where
  "columns t = remdups (concat (map (map fst) t))"

definition has_column :: "table \<Rightarrow> string \<Rightarrow> bool" where
  "has_column t c = (c \<in> set (columns t))"

definition column_values :: "table \<Rightarrow> string \<Rightarrow> cell list" where
  "column_values t c = map (\<lambda>r. cell_at r c) t"

text \<open>\<^verbatim>\<open>pd.DataFrame()\<close>, \<^verbatim>\<open>DatrasHHData()\<close> and \<^verbatim>\<open>DatrasHLData()\<close>: the empty
  table. The two subclasses add nothing to \<^verbatim>\<open>DataFrame\<close>.\<close>

definition DataFrame :: table where
  "DataFrame = []"

text \<open>\<^verbatim>\<open>serialize_object\<close> turns the records of a response into dictionaries; the
  model's payload already is the list of these dictionaries.\<close>

definition serialize_object :: "table \<Rightarrow> table" where
  "serialize_object data = data"

text \<open>\<^verbatim>\<open>df.append(rows)\<close>: a new table, the rows of \<open>df\<close> followed by \<open>rows\<close>.\<close>

definition df_append :: "table \<Rightarrow> table \<Rightarrow> table" where
  "df_append df other = df @ other"

subsection \<open>The string clean-up\<close>

text \<open>The characters \<^verbatim>\<open>str.strip()\<close> removes, for ASCII text: tab, line feed, vertical
  tab, form feed, carriage return, the four separators 0x1C to 0x1F, and space.\<close>

definition isspace :: "char \<Rightarrow> bool" where
  "isspace c = (c \<in> set [CHR 0x09, CHR 0x0A, CHR 0x0B, CHR 0x0C, CHR 0x0D,
                          CHR 0x1C, CHR 0x1D, CHR 0x1E, CHR 0x1F, CHR 0x20])"

definition strip :: "string \<Rightarrow> string" where
  "strip s = rev (dropWhile isspace (rev (dropWhile isspace s)))"

text \<open>\<^verbatim>\<open>Series.str.strip()\<close> on one value of an object column: a string is stripped,
  any other value gives the missing value.\<close>

fun str_strip :: "cell \<Rightarrow> cell" where
  "str_strip (SVal s) = SVal (strip s)"
| "str_strip v = Null"

fun is_str :: "cell \<Rightarrow> bool" where
  "is_str (SVal s) = True"
| "is_str v = False"

text \<open>A column has dtype \<^verbatim>\<open>object\<close> when it holds a string; a column of numbers and
  missing values has a numeric dtype.\<close>

definition object_dtype :: "table \<Rightarrow> string \<Rightarrow> bool" where
  "object_dtype t c = list_ex (\<lambda>r. is_str (cell_at r c)) t"

text \<open>\<^verbatim>\<open>downloaded_data.select_dtypes(['object']).columns\<close>\<close>

definition string_fields_columns :: "table \<Rightarrow> string list" where
  "string_fields_columns t = filter (object_dtype t) (columns t)"

definition clean_row :: "string list \<Rightarrow> row \<Rightarrow> row" where
  "clean_row cols r = map (\<lambda>(k, v). if k \<in> set cols then (k, str_strip v) else (k, v)) r"

text \<open>
  \<^verbatim>\<open>
  string_fields = downloaded_data.select_dtypes(['object'])
  downloaded_data[string_fields.columns] = string_fields.apply(lambda x: x.str.strip())
  downloaded_data.reset_index()
  \<close>
  The result of \<^verbatim>\<open>reset_index()\<close> is dropped, so the last line changes nothing.
\<close>

definition clean :: "table \<Rightarrow> table" where
  "clean t = map (clean_row (string_fields_columns t)) t"

subsection \<open>Remote services, the world, printing\<close>

datatype request =
    GetHHdata pyval pyval pyval
  | GetHLdata pyval pyval pyval
  | GetSurveyList
  | GetSurveyYearList pyval
  | GetSurveyYearQuarterList pyval pyval

datatype 'a response = Fault | Nothing | Payload 'a

type_synonym 'w datras = "request \<Rightarrow> 'w \<Rightarrow> table response \<times> 'w"
type_synonym 'w worms = "cell \<Rightarrow> 'w \<Rightarrow> string response \<times> 'w"

datatype call = Datras request | Worms cell

text \<open>What \<^verbatim>\<open>print\<close> writes: a line of text, the array of codes
  (\<^verbatim>\<open>print(codes)\<close>), or a code with its name (\<^verbatim>\<open>print (code,name)\<close>).\<close>

datatype message = Line string | Codes "cell list" | CodeName cell cell

record 'w world =
  remote :: 'w
  calls :: "call list"
  printed :: "message list"

definition print :: "message \<Rightarrow> 'w world \<Rightarrow> 'w world" where
  "print x w = w\<lparr>printed := printed w @ [x]\<rparr>"

text \<open>One call of the DATRAS service, \<^verbatim>\<open>self.datras_client.service.f(...)\<close>: the
  call is logged and the remote side moves on, whatever the response.\<close>

definition invoke :: "'w datras \<Rightarrow> request \<Rightarrow> 'w world \<Rightarrow> table response \<times> 'w world" where
  "invoke svc rq w =
     (case svc rq (remote w) of
        (r, s) \<Rightarrow> (r, w\<lparr>remote := s, calls := calls w @ [Datras rq]\<rparr>))"

text \<open>One call of \<^verbatim>\<open>self.worms_client.service.getAphiaNameByID(code)\<close>.\<close>

definition invoke_worms :: "'w worms \<Rightarrow> cell \<Rightarrow> 'w world \<Rightarrow> string response \<times> 'w world" where
  "invoke_worms wsvc code w =
     (case wsvc code (remote w) of
        (r, s) \<Rightarrow> (r, w\<lparr>remote := s, calls := calls w @ [Worms code]\<rparr>))"

text \<open>The format \<^verbatim>\<open>%i\<close> of an integer.\<close>

fun show_nat :: "nat \<Rightarrow> string" where
  "show_nat n =
     (if n < 10 then [''0123456789'' ! n]
      else show_nat (n div 10) @ [''0123456789'' ! (n mod 10)])"

declare show_nat.simps [simp del]

definition show_int :: "int \<Rightarrow> string" where
  "show_int i = (if i < 0 then CHR ''-'' # show_nat (nat (- i)) else show_nat (nat i))"

subsection \<open>The client object\<close>

datatype error = AttributeError | TransportError

datatype outcome = Raises error | ReturnsNone | Returns table

record 'w client =
  download_limits :: int
  datras_client :: "'w datras option"
  worms_client :: "'w worms option"

text \<open>
  \<^verbatim>\<open>
  try:
      self.datras_client = Client(url)
  except:
      self.datras_client = None
  \<close>
  \<open>Client\<close> stands for zeep's constructor: it gives a service or raises.
\<close>

definition setDatrasClient ::
  "(string \<Rightarrow> error + 'w datras) \<Rightarrow> 'w client \<Rightarrow> string \<Rightarrow> 'w client" where
  "setDatrasClient Client self url =
     (case Client url of
        Inr c \<Rightarrow> self\<lparr>datras_client := Some c\<rparr>
      | Inl e \<Rightarrow> self\<lparr>datras_client := None\<rparr>)"

definition setWormsClient ::
  "(string \<Rightarrow> error + 'w worms) \<Rightarrow> 'w client \<Rightarrow> string \<Rightarrow> 'w client" where
  "setWormsClient Client self url =
     (case Client url of
        Inr c \<Rightarrow> self\<lparr>worms_client := Some c\<rparr>
      | Inl e \<Rightarrow> self\<lparr>worms_client := None\<rparr>)"

text \<open>\<^verbatim>\<open>DATRASClient.__init__(datras_url, worms_url, download_limits)\<close>\<close>

definition init ::
  "(string \<Rightarrow> error + 'w datras) \<Rightarrow> (string \<Rightarrow> error + 'w worms) \<Rightarrow>
     string \<Rightarrow> string \<Rightarrow> int \<Rightarrow> 'w client" where
  "init DatrasClient WormsClient datras_url worms_url limits =
     setWormsClient WormsClient
       (setDatrasClient DatrasClient
          \<lparr>download_limits = limits, datras_client = None, worms_client = None\<rparr>
          datras_url)
       worms_url"

subsection \<open>The download loop\<close>

text \<open>\<^verbatim>\<open>itertools.product\<close> of three lists, the rightmost running fastest.\<close>

definition product3 :: "'a list \<Rightarrow> 'b list \<Rightarrow> 'c list \<Rightarrow> ('a \<times> 'b \<times> 'c) list" where
  "product3 xs ys zs = List.product xs (List.product ys zs)"

text \<open>
  \<^verbatim>\<open>
  for dataset in datasets:
      try:
          data = self.datras_client.service.f(dataset[0], ...)
          if data is not None:
              downloaded_data = downloaded_data.append(serialize_object(data))
              downloaded += 1
      except:
          pass
  \<close>
  The four loops of the source differ in the remote method only; \<open>rq\<close> builds the
  request of one dataset. The loop state is \<open>(downloaded_data, downloaded)\<close>.
\<close>

fun fetch_loop ::
  "'w datras \<Rightarrow> ('d \<Rightarrow> request) \<Rightarrow> 'd list \<Rightarrow> table \<times> nat \<Rightarrow> 'w world \<Rightarrow>
     (table \<times> nat) \<times> 'w world" where
  "fetch_loop svc rq [] acc w = (acc, w)"
| "fetch_loop svc rq (dataset # datasets) (downloaded_data, downloaded) w =
     (case invoke svc (rq dataset) w of
        (Payload data, w') \<Rightarrow>
          fetch_loop svc rq datasets
            (df_append downloaded_data (serialize_object data), downloaded + 1) w'
      | (Nothing, w') \<Rightarrow> fetch_loop svc rq datasets (downloaded_data, downloaded) w'
      | (Fault, w') \<Rightarrow> fetch_loop svc rq datasets (downloaded_data, downloaded) w')"

definition limit_message :: "int \<Rightarrow> message" where
  "limit_message limits = Line (''Data download is limited to '' @ show_int limits @ '' datasets.'')"

definition exiting_message :: "nat \<Rightarrow> message" where
  "exiting_message n =
     Line (''Your are trying to download '' @ show_int (int n) @ '' datasets. Exiting'')"

definition summary_message :: "nat \<Rightarrow> nat \<Rightarrow> string \<Rightarrow> message" where
  "summary_message downloaded n what =
     Line (show_int (int downloaded) @ '' out of '' @ show_int (int n) @ '' '' @ what @ '' downloaded'')"

subsection \<open>getHHdata\<close>

definition getHHdata ::
  "'w client \<Rightarrow> pyval \<Rightarrow> pyval \<Rightarrow> pyval \<Rightarrow> bool \<Rightarrow> 'w world \<Rightarrow> outcome \<times> 'w world" where
  "getHHdata self survey year quarter limit_download w =
     (case datras_client self of
        None \<Rightarrow> (ReturnsNone, print (Line ''DATRAS client not set'') w)
      | Some svc \<Rightarrow>
          (let datasets = product3 (listify survey) (listify year) (listify quarter);
               datasets_number = length datasets
           in if limit_download \<and> int datasets_number > download_limits self then
                (ReturnsNone,
                 print (exiting_message datasets_number)
                   (print (limit_message (download_limits self)) w))
              else
                (case fetch_loop svc (\<lambda>(s, y, q). GetHHdata s y q) datasets (DataFrame, 0) w of
                   ((downloaded_data, downloaded), w') \<Rightarrow>
                     (Returns (clean downloaded_data),
                      print (summary_message downloaded datasets_number ''Datasets'') w'))))"

subsection \<open>getHLdata\<close>

text \<open>\<^verbatim>\<open>Series.unique()\<close>: the distinct values, in order of first appearance.\<close>

definition unique :: "cell list \<Rightarrow> cell list" where
  "unique xs = rev (remdups (rev xs))"

text \<open>
  \<^verbatim>\<open>pd.merge(left, right, on=key)\<close>: the inner join on one key column. Every row of
  \<open>left\<close>, in order, is joined with the rows of \<open>right\<close> that carry the same key; a
  column other than the key that both tables have is renamed with the suffixes
  \<^verbatim>\<open>_x\<close> and \<^verbatim>\<open>_y\<close>.
\<close>

definition join_rows :: "string list \<Rightarrow> string \<Rightarrow> row \<Rightarrow> row \<Rightarrow> row" where
  "join_rows overlap on l r =
     map (\<lambda>(k, v). (if k \<in> set overlap then k @ ''_x'' else k, v)) l @
     map (\<lambda>(k, v). (if k \<in> set overlap then k @ ''_y'' else k, v))
       (filter (\<lambda>(k, v). k \<noteq> on) r)"

definition merge :: "table \<Rightarrow> table \<Rightarrow> string \<Rightarrow> table" where
  "merge left right on =
     (let overlap = filter (\<lambda>k. k \<noteq> on \<and> k \<in> set (columns right)) (columns left)
      in concat (map (\<lambda>l. map (join_rows overlap on l)
                              (filter (\<lambda>r. cell_at r on = cell_at l on) right)) left))"

text \<open>
  \<^verbatim>\<open>
  for code in codes:
      try:
          name =  self.worms_client.service.getAphiaNameByID(code)
      except:
          name = 'No data'
      print (code,name)
      names = names.append({'Valid_Aphia':code,'Species_Name':name}, ignore_index = True)
  \<close>
\<close>

fun names_loop :: "'w worms \<Rightarrow> cell list \<Rightarrow> table \<Rightarrow> 'w world \<Rightarrow> table \<times> 'w world" where
  "names_loop wsvc [] names w = (names, w)"
| "names_loop wsvc (code # codes) names w =
     (case invoke_worms wsvc code w of
        (r, w1) \<Rightarrow>
          (let name = (case r of Fault \<Rightarrow> SVal ''No data'' | Nothing \<Rightarrow> Null | Payload n \<Rightarrow> SVal n)
           in names_loop wsvc codes
                (df_append names [[(''Valid_Aphia'', code), (''Species_Name'', name)]])
                (print (CodeName code name) w1)))"

text \<open>
  The block under \<^verbatim>\<open>if translate_sps:\<close>. The attribute access
  \<^verbatim>\<open>downloaded_data.Valid_Aphia\<close> raises \<^verbatim>\<open>AttributeError\<close> on a table that has no
  such column; the statement is outside every \<^verbatim>\<open>try\<close>.
\<close>

definition translate ::
  "'w client \<Rightarrow> table \<Rightarrow> 'w world \<Rightarrow> (error + table) \<times> 'w world" where
  "translate self downloaded_data w =
     (case worms_client self of
        None \<Rightarrow>
          (Inr downloaded_data,
           print (Line ''WORMS web service not available. Cannot resolve Aphia codes into species'') w)
      | Some wsvc \<Rightarrow>
          if \<not> has_column downloaded_data ''Valid_Aphia'' then (Inl AttributeError, w)
          else
            (let codes = unique (column_values downloaded_data ''Valid_Aphia'')
             in case names_loop wsvc codes DataFrame (print (Codes codes) w) of
                  (names, w') \<Rightarrow> (Inr (merge downloaded_data names ''Valid_Aphia''), w')))"

definition getHLdata ::
  "'w client \<Rightarrow> pyval \<Rightarrow> pyval \<Rightarrow> pyval \<Rightarrow> bool \<Rightarrow> bool \<Rightarrow> 'w world \<Rightarrow> outcome \<times> 'w world" where
  "getHLdata self survey year quarter translate_sps limit_download w =
     (case datras_client self of
        None \<Rightarrow> (ReturnsNone, print (Line ''DATRAS client not set'') w)
      | Some svc \<Rightarrow>
          (let datasets = product3 (listify survey) (listify year) (listify quarter);
               datasets_number = length datasets
           in if limit_download \<and> int datasets_number > download_limits self then
                (ReturnsNone,
                 print (exiting_message datasets_number)
                   (print (limit_message (download_limits self)) w))
              else
                (case fetch_loop svc (\<lambda>(s, y, q). GetHLdata s y q) datasets (DataFrame, 0) w of
                   ((downloaded_data, downloaded), w1) \<Rightarrow>
                     (let w2 = print (summary_message downloaded datasets_number ''Datasets'') w1
                      in if translate_sps then
                           (case translate self downloaded_data w2 of
                              (Inl e, w3) \<Rightarrow> (Raises e, w3)
                            | (Inr merged, w3) \<Rightarrow> (Returns (clean merged), w3))
                         else (Returns (clean downloaded_data), w2)))))"


subsection \<open>getSurveyList, getSurveyYearList, getSurveyYearQuarterList\<close>

text \<open>
  \<^verbatim>\<open>
  try:
      data = serialize_object(self.datras_client.service.getSurveyList())
      downloaded_data = pd.DataFrame(data)
  except:
      print('Cannot download survey list')
      return
  \<close>
  \<^verbatim>\<open>pd.DataFrame(None)\<close> is the empty table.
\<close>

definition getSurveyList :: "'w client \<Rightarrow> 'w world \<Rightarrow> outcome \<times> 'w world" where
  "getSurveyList self w =
     (case datras_client self of
        None \<Rightarrow> (ReturnsNone, print (Line ''DATRAS client not set'') w)
      | Some svc \<Rightarrow>
          (case invoke svc GetSurveyList w of
             (Fault, w') \<Rightarrow> (ReturnsNone, print (Line ''Cannot download survey list'') w')
           | (Nothing, w') \<Rightarrow>
               (Returns (clean DataFrame), print (Line ''Survey list downloaded'') w')
           | (Payload data, w') \<Rightarrow>
               (Returns (clean (serialize_object data)),
                print (Line ''Survey list downloaded'') w')))"

definition getSurveyYearList :: "'w client \<Rightarrow> pyval \<Rightarrow> 'w world \<Rightarrow> outcome \<times> 'w world" where
  "getSurveyYearList self survey w =
     (case datras_client self of
        None \<Rightarrow> (ReturnsNone, print (Line ''DATRAS client not set'') w)
      | Some svc \<Rightarrow>
          (let survey = listify survey;
               datasets_number = length survey
           in case fetch_loop svc GetSurveyYearList survey (DataFrame, 0) w of
                ((downloaded_data, downloaded), w') \<Rightarrow>
                  (Returns (clean downloaded_data),
                   print (summary_message downloaded datasets_number ''surveys'') w')))"

definition getSurveyYearQuarterList ::
  "'w client \<Rightarrow> pyval \<Rightarrow> pyval \<Rightarrow> bool \<Rightarrow> 'w world \<Rightarrow> outcome \<times> 'w world" where
  "getSurveyYearQuarterList self survey year limit_download w =
     (case datras_client self of
        None \<Rightarrow> (ReturnsNone, print (Line ''DATRAS client not set'') w)
      | Some svc \<Rightarrow>
          (let datasets = List.product (listify survey) (listify year);
               datasets_number = length datasets
           in if limit_download \<and> int datasets_number > download_limits self then
                (ReturnsNone,
                 print (exiting_message datasets_number)
                   (print (limit_message (download_limits self)) w))
              else
                (case fetch_loop svc (\<lambda>(s, y). GetSurveyYearQuarterList s y) datasets
                        (DataFrame, 0) w of
                   ((downloaded_data, downloaded), w') \<Rightarrow>
                     (Returns (clean downloaded_data),
                      print (summary_message downloaded datasets_number ''Datasets'') w'))))"

subsection \<open>The remote side seen from outside\<close>

text \<open>
  What a service answers to a list of requests sent one after the other, from the state
  \<open>s\<close> of the remote side, and the state it is left in. These two functions are not
  part of the client; the theorems use them to say what the client's loop has done.
\<close>

fun answers :: "'w datras \<Rightarrow> request list \<Rightarrow> 'w \<Rightarrow> table response list" where
  "answers svc [] s = []"
| "answers svc (rq # rqs) s = (case svc rq s of (r, s') \<Rightarrow> r # answers svc rqs s')"

fun remote_after :: "'w datras \<Rightarrow> request list \<Rightarrow> 'w \<Rightarrow> 'w" where
  "remote_after svc [] s = s"
| "remote_after svc (rq # rqs) s = (case svc rq s of (r, s') \<Rightarrow> remote_after svc rqs s')"

text \<open>The rows of the responses that carry data, in order, and how many responses do.\<close>

fun payload :: "table response \<Rightarrow> table" where
  "payload (Payload data) = data"
| "payload r = []"

fun succeeded :: "'a response \<Rightarrow> bool" where
  "succeeded (Payload data) = True"
| "succeeded r = False"

definition downloads :: "'w datras \<Rightarrow> request list \<Rightarrow> 'w \<Rightarrow> table" where
  "downloads svc rqs s = concat (map payload (answers svc rqs s))"

definition n_downloaded :: "'w datras \<Rightarrow> request list \<Rightarrow> 'w \<Rightarrow> nat" where
  "n_downloaded svc rqs s = length (filter succeeded (answers svc rqs s))"

text \<open>The requests of the cartesian combinations of the arguments, in the order of
  \<^verbatim>\<open>itertools.product\<close>.\<close>

definition hh_requests :: "pyval \<Rightarrow> pyval \<Rightarrow> pyval \<Rightarrow> request list" where
  "hh_requests survey year quarter =
     map (\<lambda>(s, y, q). GetHHdata s y q)
       (product3 (listify survey) (listify year) (listify quarter))"

definition hl_requests :: "pyval \<Rightarrow> pyval \<Rightarrow> pyval \<Rightarrow> request list" where
  "hl_requests survey year quarter =
     map (\<lambda>(s, y, q). GetHLdata s y q)
       (product3 (listify survey) (listify year) (listify quarter))"

definition syl_requests :: "pyval \<Rightarrow> request list" where
  "syl_requests survey = map GetSurveyYearList (listify survey)"

definition syql_requests :: "pyval \<Rightarrow> pyval \<Rightarrow> request list" where
  "syql_requests survey year =
     map (\<lambda>(s, y). GetSurveyYearQuarterList s y) (List.product (listify survey) (listify year))"

text \<open>The world after the download loop has sent the requests \<open>rqs\<close>.\<close>

definition after_requests :: "'w datras \<Rightarrow> request list \<Rightarrow> 'w world \<Rightarrow> 'w world" where
  "after_requests svc rqs w =
     w\<lparr>remote := remote_after svc rqs (remote w), calls := calls w @ map Datras rqs\<rparr>"

subsection \<open>A sample service\<close>

text \<open>
  A DATRAS service that keeps count of the requests it has seen. It has haul and length
  data for 2010 only, fails on every request for 2011 and answers \<^verbatim>\<open>None\<close> for any
  other year. Its strings are padded with blanks, as those of DATRAS are.
\<close>

definition sample_datras :: "nat datras" where
  "sample_datras rq n =
     (case rq of
        GetHHdata s y q \<Rightarrow>
          (if y = PInt 2010 then Payload [[(''Ship'', SVal '' ARG  ''), (''HaulNo'', IVal 1)]]
           else if y = PInt 2011 then Fault else Nothing, Suc n)
      | GetHLdata s y q \<Rightarrow>
          (if y = PInt 2010 then Payload [[(''Valid_Aphia'', IVal 126436), (''LngtClass'', IVal 10)]]
           else if y = PInt 2011 then Fault else Nothing, Suc n)
      | GetSurveyList \<Rightarrow> (Payload [[(''Survey'', SVal ''SP-ARSA  '')]], Suc n)
      | GetSurveyYearList s \<Rightarrow>
          (if s = PStr ''SP-ARSA'' then Payload [[(''Survey'', SVal ''SP-ARSA''), (''Year'', IVal 2010)]]
           else Fault, Suc n)
      | GetSurveyYearQuarterList s y \<Rightarrow>
          (if y = PInt 2010 then Payload [[(''Survey'', SVal ''SP-ARSA''), (''Quarter'', IVal 1)]]
           else Fault, Suc n))"

definition sample_worms :: "nat worms" where
  "sample_worms code n =
     (if code = IVal 126436 then Payload ''Gadus morhua '' else Fault, Suc n)"

definition sample_client :: "nat client" where
  "sample_client =
     init (\<lambda>url. Inr sample_datras) (\<lambda>url. Inr sample_worms) ''datras'' ''worms'' 5"

text \<open>A client whose DATRAS service could not be built.\<close>

definition offline_client :: "nat client" where
  "offline_client =
     init (\<lambda>url. Inl TransportError) (\<lambda>url. Inr sample_worms) ''datras'' ''worms'' 5"

definition fresh :: "nat world" where
  "fresh = \<lparr>remote = 0, calls = [], printed = []\<rparr>"

section \<open>What the download loop does\<close>

text \<open>The loop sends the request of every dataset, in order, whatever the responses are;
  it keeps the rows of the responses that carry data and counts them.\<close>

lemma fetch_loop_run:
  "fetch_loop svc rq ds (t, n) w =
     ((t @ downloads svc (map rq ds) (remote w), n + n_downloaded svc (map rq ds) (remote w)),
      after_requests svc (map rq ds) w)"
proof (induction ds arbitrary: t n w)
  case Nil
  show ?case by (simp add: downloads_def n_downloaded_def after_requests_def)
next
  case (Cons d ds)
  obtain r s where step: "svc (rq d) (remote w) = (r, s)"
    by (cases "svc (rq d) (remote w)")
  show ?case
    by (cases r)
      (simp_all add: step invoke_def Cons.IH df_append_def serialize_object_def
        downloads_def n_downloaded_def after_requests_def)
qed

lemma length_product3:
  "length (product3 xs ys zs) = length xs * length ys * length zs"
  by (simp add: product3_def)

lemma listify_scalar: "\<not> is_list v \<Longrightarrow> listify v = [v]"
  by (cases v) simp_all

lemma length_hh_requests:
  "length (hh_requests survey year quarter) =
     length (listify survey) * length (listify year) * length (listify quarter)"
  by (simp add: hh_requests_def length_product3)

lemma length_hl_requests:
  "length (hl_requests survey year quarter) =
     length (listify survey) * length (listify year) * length (listify quarter)"
  by (simp add: hl_requests_def length_product3)

lemma length_syql_requests:
  "length (syql_requests survey year) = length (listify survey) * length (listify year)"
  by (simp add: syql_requests_def)

lemma getHHdata_unset:
  "datras_client self = None \<Longrightarrow>
   getHHdata self survey year quarter limit_download w =
     (ReturnsNone, print (Line ''DATRAS client not set'') w)"
  by (simp add: getHHdata_def)

lemma getHHdata_blocked:
  assumes "datras_client self = Some svc"
    and "limit_download"
    and "int (length (listify survey) * length (listify year) * length (listify quarter))
           > download_limits self"
  shows "getHHdata self survey year quarter limit_download w =
     (ReturnsNone,
      print (exiting_message (length (listify survey) * length (listify year) * length (listify quarter)))
        (print (limit_message (download_limits self)) w))"
  using assms by (simp add: getHHdata_def length_product3)

lemma getHHdata_proceeds:
  assumes "datras_client self = Some svc"
    and "\<not> (limit_download \<and>
            int (length (listify survey) * length (listify year) * length (listify quarter))
              > download_limits self)"
  shows "getHHdata self survey year quarter limit_download w =
     (Returns (clean (downloads svc (hh_requests survey year quarter) (remote w))),
      print (summary_message (n_downloaded svc (hh_requests survey year quarter) (remote w))
               (length (listify survey) * length (listify year) * length (listify quarter))
               ''Datasets'')
        (after_requests svc (hh_requests survey year quarter) w))"
  using assms
  by (simp add: getHHdata_def length_product3 fetch_loop_run DataFrame_def hh_requests_def
      Let_def)

lemma getHLdata_unset:
  "datras_client self = None \<Longrightarrow>
   getHLdata self survey year quarter translate_sps limit_download w =
     (ReturnsNone, print (Line ''DATRAS client not set'') w)"
  by (simp add: getHLdata_def)

lemma getHLdata_blocked:
  assumes "datras_client self = Some svc"
    and "limit_download"
    and "int (length (listify survey) * length (listify year) * length (listify quarter))
           > download_limits self"
  shows "getHLdata self survey year quarter translate_sps limit_download w =
     (ReturnsNone,
      print (exiting_message (length (listify survey) * length (listify year) * length (listify quarter)))
        (print (limit_message (download_limits self)) w))"
  using assms by (simp add: getHLdata_def length_product3)

lemma getHLdata_proceeds:
  assumes "datras_client self = Some svc"
    and "\<not> (limit_download \<and>
            int (length (listify survey) * length (listify year) * length (listify quarter))
              > download_limits self)"
  shows "getHLdata self survey year quarter translate_sps limit_download w =
     (let downloaded_data = downloads svc (hl_requests survey year quarter) (remote w);
          w2 = print (summary_message (n_downloaded svc (hl_requests survey year quarter) (remote w))
                        (length (listify survey) * length (listify year) * length (listify quarter))
                        ''Datasets'')
                 (after_requests svc (hl_requests survey year quarter) w)
      in if translate_sps then
           (case translate self downloaded_data w2 of
              (Inl e, w3) \<Rightarrow> (Raises e, w3)
            | (Inr merged, w3) \<Rightarrow> (Returns (clean merged), w3))
         else (Returns (clean downloaded_data), w2))"
proof -
  have gate: "\<not> (limit_download \<and>
      int (length (product3 (listify survey) (listify year) (listify quarter)))
        > download_limits self)"
    using assms(2) by (simp add: length_product3)
  show ?thesis
    unfolding getHLdata_def assms(1) option.case Let_def if_not_P [OF gate]
    by (simp add: length_product3 fetch_loop_run DataFrame_def hl_requests_def)
qed

lemma getSurveyList_unset:
  "datras_client self = None \<Longrightarrow>
   getSurveyList self w = (ReturnsNone, print (Line ''DATRAS client not set'') w)"
  by (simp add: getSurveyList_def)

lemma getSurveyYearList_unset:
  "datras_client self = None \<Longrightarrow>
   getSurveyYearList self survey w = (ReturnsNone, print (Line ''DATRAS client not set'') w)"
  by (simp add: getSurveyYearList_def)

lemma getSurveyYearList_run:
  assumes "datras_client self = Some svc"
  shows "getSurveyYearList self survey w =
     (Returns (clean (downloads svc (syl_requests survey) (remote w))),
      print (summary_message (n_downloaded svc (syl_requests survey) (remote w))
               (length (listify survey)) ''surveys'')
        (after_requests svc (syl_requests survey) w))"
  using assms
  by (simp add: getSurveyYearList_def fetch_loop_run DataFrame_def syl_requests_def Let_def)

lemma getSurveyYearQuarterList_unset:
  "datras_client self = None \<Longrightarrow>
   getSurveyYearQuarterList self survey year limit_download w =
     (ReturnsNone, print (Line ''DATRAS client not set'') w)"
  by (simp add: getSurveyYearQuarterList_def)

lemma getSurveyYearQuarterList_blocked:
  assumes "datras_client self = Some svc"
    and "limit_download"
    and "int (length (listify survey) * length (listify year)) > download_limits self"
  shows "getSurveyYearQuarterList self survey year limit_download w =
     (ReturnsNone,
      print (exiting_message (length (listify survey) * length (listify year)))
        (print (limit_message (download_limits self)) w))"
  using assms by (simp add: getSurveyYearQuarterList_def)

lemma getSurveyYearQuarterList_proceeds:
  assumes "datras_client self = Some svc"
    and "\<not> (limit_download \<and>
            int (length (listify survey) * length (listify year)) > download_limits self)"
  shows "getSurveyYearQuarterList self survey year limit_download w =
     (Returns (clean (downloads svc (syql_requests survey year) (remote w))),
      print (summary_message (n_downloaded svc (syql_requests survey year) (remote w))
               (length (listify survey) * length (listify year)) ''Datasets'')
        (after_requests svc (syql_requests survey year) w))"
  using assms
  by (simp add: getSurveyYearQuarterList_def fetch_loop_run DataFrame_def syql_requests_def
      Let_def)

text \<open>The species look-up touches the world through WORMS calls and printed lines only.\<close>

lemma names_loop_world:
  "\<exists>ms. snd (names_loop wsvc codes names w) =
     w\<lparr>remote := remote (snd (names_loop wsvc codes names w)),
       calls := calls w @ map Worms codes,
       printed := printed w @ ms\<rparr>"
proof (induction codes arbitrary: names w)
  case Nil
  show ?case by (rule exI [of _ "[]"]) simp
next
  case (Cons code codes)
  obtain r s where step: "wsvc code (remote w) = (r, s)"
    by (cases "wsvc code (remote w)")
  define name where "name = (case r of Fault \<Rightarrow> SVal ''No data'' | Nothing \<Rightarrow> Null | Payload n \<Rightarrow> SVal n)"
  define w1 where "w1 = print (CodeName code name) (w\<lparr>remote := s, calls := calls w @ [Worms code]\<rparr>)"
  define names1 where "names1 = df_append names [[(''Valid_Aphia'', code), (''Species_Name'', name)]]"
  have unfold: "names_loop wsvc (code # codes) names w = names_loop wsvc codes names1 w1"
    by (simp add: step invoke_worms_def name_def w1_def names1_def Let_def)
  from Cons.IH [of names1 w1] obtain ms where
    ms: "snd (names_loop wsvc codes names1 w1) =
           w1\<lparr>remote := remote (snd (names_loop wsvc codes names1 w1)),
              calls := calls w1 @ map Worms codes, printed := printed w1 @ ms\<rparr>"
    by blast
  have "snd (names_loop wsvc codes names1 w1) =
          w\<lparr>remote := remote (snd (names_loop wsvc codes names1 w1)),
            calls := calls w @ map Worms (code # codes),
            printed := printed w @ (CodeName code name # ms)\<rparr>"
    by (subst ms) (simp add: w1_def print_def)
  then show ?case unfolding unfold by blast
qed

lemma translate_world:
  "\<exists>codes ms. snd (translate self t w) =
     w\<lparr>remote := remote (snd (translate self t w)),
       calls := calls w @ map Worms codes,
       printed := printed w @ ms\<rparr>"
proof (cases "worms_client self")
  case None
  have "snd (translate self t w) =
          w\<lparr>remote := remote (snd (translate self t w)), calls := calls w @ map Worms [],
            printed := printed w @ [Line ''WORMS web service not available. Cannot resolve Aphia codes into species'']\<rparr>"
    by (simp add: translate_def None print_def)
  then show ?thesis by blast
next
  case (Some wsvc)
  show ?thesis
  proof (cases "has_column t ''Valid_Aphia''")
    case False
    have "snd (translate self t w) =
            w\<lparr>remote := remote (snd (translate self t w)), calls := calls w @ map Worms [],
              printed := printed w @ []\<rparr>"
      by (simp add: translate_def Some False)
    then show ?thesis by blast
  next
    case True
    define codes where "codes = unique (column_values t ''Valid_Aphia'')"
    define w1 where "w1 = print (Codes codes) w"
    have eq: "snd (translate self t w) = snd (names_loop wsvc codes DataFrame w1)"
      by (simp add: translate_def Some True codes_def w1_def Let_def split: prod.splits)
    from names_loop_world [of wsvc codes DataFrame w1] obtain ms where
      ms: "snd (names_loop wsvc codes DataFrame w1) =
             w1\<lparr>remote := remote (snd (names_loop wsvc codes DataFrame w1)),
                calls := calls w1 @ map Worms codes, printed := printed w1 @ ms\<rparr>"
      by blast
    have "snd (translate self t w) =
            w\<lparr>remote := remote (snd (translate self t w)), calls := calls w @ map Worms codes,
              printed := printed w @ (Codes codes # ms)\<rparr>"
      unfolding eq by (subst ms) (simp add: w1_def print_def)
    then show ?thesis by blast
  qed
qed

section \<open>What the clean-up does\<close>















section \<open>The sample client\<close>

lemma init_datras_client:
  "datras_client (init DatrasClient WormsClient datras_url worms_url limits) =
     (case DatrasClient datras_url of Inl e \<Rightarrow> None | Inr c \<Rightarrow> Some c)"
  by (simp add: init_def setDatrasClient_def setWormsClient_def split: sum.splits)

lemma init_worms_client:
  "worms_client (init DatrasClient WormsClient datras_url worms_url limits) =
     (case WormsClient worms_url of Inl e \<Rightarrow> None | Inr c \<Rightarrow> Some c)"
  by (simp add: init_def setDatrasClient_def setWormsClient_def split: sum.splits)

lemma init_download_limits:
  "download_limits (init DatrasClient WormsClient datras_url worms_url limits) = limits"
  by (simp add: init_def setDatrasClient_def setWormsClient_def split: sum.splits)

lemma sample_client_fields:
  "datras_client sample_client = Some sample_datras"
  "worms_client sample_client = Some sample_worms"
  "download_limits sample_client = 5"
  by (simp_all add: sample_client_def init_datras_client init_worms_client init_download_limits)

lemma offline_client_fields:
  "datras_client offline_client = None"
  "worms_client offline_client = Some sample_worms"
  "download_limits offline_client = 5"
  by (simp_all add: offline_client_def init_datras_client init_worms_client init_download_limits)

section \<open>The cartesian product\<close>

lemma count_list_product:
  "count_list (List.product xs ys) (a, b) = count_list xs a * count_list ys b"
proof (induction xs)
  case Nil
  show ?case by simp
next
  case (Cons x xs)
  have "count_list (map (Pair x) ys) (a, b) = (if x = a then count_list ys b else 0)"
    by (induction ys) auto
  with Cons show ?case by (simp add: algebra_simps)
qed

lemma count_list_product3:
  "count_list (product3 xs ys zs) (a, b, c) = count_list xs a * count_list ys b * count_list zs c"
  by (simp add: product3_def count_list_product)

section \<open>More on getHLdata and on the answers of the remote side\<close>


lemma getHLdata_proceeds_world:
  assumes "datras_client self = Some svc"
    and "\<not> (limit_download \<and>
            int (length (listify survey) * length (listify year) * length (listify quarter))
              > download_limits self)"
  shows "\<exists>codes ms.
     snd (getHLdata self survey year quarter translate_sps limit_download w) =
       w\<lparr>remote := remote (snd (getHLdata self survey year quarter translate_sps limit_download w)),
         calls := calls w @ map Datras (hl_requests survey year quarter) @ map Worms codes,
         printed := printed w @
           summary_message (n_downloaded svc (hl_requests survey year quarter) (remote w))
             (length (listify survey) * length (listify year) * length (listify quarter))
             ''Datasets'' # ms\<rparr>"
proof -
  define d where "d = downloads svc (hl_requests survey year quarter) (remote w)"
  define line where "line = summary_message (n_downloaded svc (hl_requests survey year quarter) (remote w))
      (length (listify survey) * length (listify year) * length (listify quarter)) ''Datasets''"
  define w2 where "w2 = print line (after_requests svc (hl_requests survey year quarter) w)"
  define res where "res = getHLdata self survey year quarter translate_sps limit_download w"
  have res: "res = (if translate_sps then
           (case translate self d w2 of
              (Inl e, w3) \<Rightarrow> (Raises e, w3)
            | (Inr merged, w3) \<Rightarrow> (Returns (clean merged), w3))
         else (Returns (clean d), w2))"
    unfolding res_def by (simp add: getHLdata_proceeds [OF assms] Let_def d_def w2_def line_def)
  have w2: "w2 = w\<lparr>remote := remote w2,
      calls := calls w @ map Datras (hl_requests survey year quarter),
      printed := printed w @ [line]\<rparr>"
    by (simp add: w2_def print_def after_requests_def)
  show ?thesis
  proof (cases translate_sps)
    case False
    then have "snd res = w2" by (simp add: res)
    then have "snd res = w\<lparr>remote := remote (snd res),
        calls := calls w @ map Datras (hl_requests survey year quarter) @ map Worms [],
        printed := printed w @ line # []\<rparr>"
      using w2 by simp
    then show ?thesis unfolding res_def line_def by blast
  next
    case True
    then have snd_res: "snd res = snd (translate self d w2)"
      by (simp add: res split: prod.splits sum.splits)
    from translate_world [of self d w2] obtain codes ms where
      t: "snd (translate self d w2) =
            w2\<lparr>remote := remote (snd (translate self d w2)),
               calls := calls w2 @ map Worms codes, printed := printed w2 @ ms\<rparr>"
      by blast
    have "snd res = w\<lparr>remote := remote (snd res),
        calls := calls w @ map Datras (hl_requests survey year quarter) @ map Worms codes,
        printed := printed w @ line # ms\<rparr>"
      unfolding snd_res by (subst t, subst w2) (simp add: w2_def print_def after_requests_def)
    then show ?thesis unfolding res_def line_def by blast
  qed
qed

lemma getHLdata_proceeds_calls:
  assumes "datras_client self = Some svc"
    and "\<not> (limit_download \<and>
            int (length (listify survey) * length (listify year) * length (listify quarter))
              > download_limits self)"
  shows "\<exists>codes. calls (snd (getHLdata self survey year quarter translate_sps limit_download w)) =
           calls w @ map Datras (hl_requests survey year quarter) @ map Worms codes"
proof -
  from getHLdata_proceeds_world [OF assms, of translate_sps w] obtain codes ms where
    "snd (getHLdata self survey year quarter translate_sps limit_download w) =
       w\<lparr>remote := remote (snd (getHLdata self survey year quarter translate_sps limit_download w)),
         calls := calls w @ map Datras (hl_requests survey year quarter) @ map Worms codes,
         printed := printed w @
           summary_message (n_downloaded svc (hl_requests survey year quarter) (remote w))
             (length (listify survey) * length (listify year) * length (listify quarter))
             ''Datasets'' # ms\<rparr>"
    by blast
  then have "calls (snd (getHLdata self survey year quarter translate_sps limit_download w)) =
      calls w @ map Datras (hl_requests survey year quarter) @ map Worms codes"
    by (rule ssubst) simp
  then show ?thesis by (rule exI)
qed

text \<open>The answers of the remote side, one for each request.\<close>

lemma downloads_succeeded:
  "downloads svc rqs s = concat (map payload (filter succeeded (answers svc rqs s)))"
proof -
  have "concat (map payload rs) = concat (map payload (filter succeeded rs))"
    for rs :: "table response list"
  proof (induction rs)
    case Nil
    show ?case by simp
  next
    case (Cons r rs)
    then show ?case by (cases r) simp_all
  qed
  then show ?thesis by (simp add: downloads_def)
qed



text \<open>
  When \<^verbatim>\<open>getHLdata\<close> raises. The only statement of the five methods that can raise
  outside a \<^verbatim>\<open>try\<close> is the attribute access \<^verbatim>\<open>downloaded_data.Valid_Aphia\<close> of the
  species look-up. It raises when the downloaded table has no such column, which is the
  case whenever no request has brought data. A fault of a request itself never reaches the
  caller of any method.
\<close>

lemma translate_raises_iff:
  "(\<exists>e. fst (translate self t w) = Inl e) \<longleftrightarrow>
     worms_client self \<noteq> None \<and> \<not> has_column t ''Valid_Aphia''"
  by (cases "worms_client self")
    (auto simp: translate_def Let_def split: prod.splits)

lemma translate_error: "fst (translate self t w) = Inl e \<Longrightarrow> e = AttributeError"
  by (cases "worms_client self")
    (auto simp: translate_def Let_def split: prod.splits if_splits)


lemma getHLdata_raises_iff:
  assumes "datras_client self = Some svc"
  shows "(\<exists>e. fst (getHLdata self survey year quarter translate_sps limit_download w) = Raises e) \<longleftrightarrow>
     translate_sps
     \<and> \<not> (limit_download \<and>
            int (length (listify survey) * length (listify year) * length (listify quarter))
              > download_limits self)
     \<and> worms_client self \<noteq> None
     \<and> \<not> has_column (downloads svc (hl_requests survey year quarter) (remote w)) ''Valid_Aphia''"
proof (cases "limit_download \<and>
    int (length (listify survey) * length (listify year) * length (listify quarter))
      > download_limits self")
  case True
  then show ?thesis
    using getHLdata_blocked [OF assms, of limit_download survey year quarter translate_sps w]
    by simp
next
  case False
  define d where "d = downloads svc (hl_requests survey year quarter) (remote w)"
  define w2 where "w2 = print (summary_message (n_downloaded svc (hl_requests survey year quarter) (remote w))
      (length (listify survey) * length (listify year) * length (listify quarter)) ''Datasets'')
      (after_requests svc (hl_requests survey year quarter) w)"
  have "(\<exists>e. fst (getHLdata self survey year quarter translate_sps limit_download w) = Raises e) \<longleftrightarrow>
      translate_sps \<and> (\<exists>e. fst (translate self d w2) = Inl e)"
    by (cases "translate self d w2"; cases "fst (translate self d w2)")
      (auto simp: getHLdata_proceeds [OF assms False] Let_def d_def [symmetric] w2_def [symmetric])
  then show ?thesis
    using False by (simp add: translate_raises_iff d_def)
qed

lemma no_rows_no_column: "\<not> has_column [] c"
  by (simp add: has_column_def columns_def)

lemma faults_give_no_rows:
  "\<forall>r \<in> set (answers svc rqs s). \<not> succeeded r \<Longrightarrow> downloads svc rqs s = []"
  by (simp add: downloads_succeeded)

lemma getHLdata_translate_without_downloads:
  assumes "datras_client self = Some svc"
    and "worms_client self = Some wsvc"
    and "\<not> (limit_download \<and>
            int (length (listify survey) * length (listify year) * length (listify quarter))
              > download_limits self)"
    and "\<forall>r \<in> set (answers svc (hl_requests survey year quarter) (remote w)). \<not> succeeded r"
  shows "fst (getHLdata self survey year quarter True limit_download w) = Raises AttributeError"
proof -
  have "downloads svc (hl_requests survey year quarter) (remote w) = []"
    using assms(4) by (rule faults_give_no_rows)
  then show ?thesis
    by (simp add: getHLdata_proceeds [OF assms(1,3)] Let_def translate_def assms(2)
        no_rows_no_column)
qed

lemma fetch_faults_do_not_propagate:
  assumes "datras_client self = Some svc"
  shows "fst (getHHdata self survey year quarter limit_download w) \<noteq> Raises e"
    and "fst (getHLdata self survey year quarter False limit_download w) \<noteq> Raises e"
    and "fst (getSurveyYearList self survey w) \<noteq> Raises e"
    and "fst (getSurveyYearQuarterList self survey year limit_download w) \<noteq> Raises e"
proof -
  show "fst (getHHdata self survey year quarter limit_download w) \<noteq> Raises e"
  proof (cases "limit_download \<and>
      int (length (listify survey) * length (listify year) * length (listify quarter))
        > download_limits self")
    case True
    then show ?thesis
      using getHHdata_blocked [OF assms, of limit_download survey year quarter w] by simp
  next
    case False
    then show ?thesis by (simp add: getHHdata_proceeds [OF assms False])
  qed
  show "fst (getHLdata self survey year quarter False limit_download w) \<noteq> Raises e"
    using getHLdata_raises_iff [OF assms, of survey year quarter False limit_download w]
    by auto
  show "fst (getSurveyYearList self survey w) \<noteq> Raises e"
    by (simp add: getSurveyYearList_run [OF assms])
  show "fst (getSurveyYearQuarterList self survey year limit_download w) \<noteq> Raises e"
  proof (cases "limit_download \<and>
      int (length (listify survey) * length (listify year)) > download_limits self")
    case True
    then show ?thesis
      using getSurveyYearQuarterList_blocked [OF assms, of limit_download survey year w] by simp
  next
    case False
    then show ?thesis by (simp add: getSurveyYearQuarterList_proceeds [OF assms False])
  qed
qed

section \<open>The claims\<close>

text \<open>
  C8. When the DATRAS client is not set (\<^verbatim>\<open>self.datras_client is None\<close>, which is what
  \<^verbatim>\<open>setDatrasClient\<close> leaves when zeep's constructor raises), each of \<^verbatim>\<open>getHHdata\<close>,
  \<^verbatim>\<open>getHLdata\<close>, \<^verbatim>\<open>getSurveyList\<close>, \<^verbatim>\<open>getSurveyYearList\<close> and
  \<^verbatim>\<open>getSurveyYearQuarterList\<close> returns \<^verbatim>\<open>None\<close> and leaves the world as it was but for
  the one printed line \<^verbatim>\<open>DATRAS client not set\<close>: no remote call is logged and the remote
  side has not moved.
\<close>

theorem client_not_set_returns_none:
  assumes "datras_client self = None"
  shows "getHHdata self survey year quarter limit_download w =
           (ReturnsNone, w\<lparr>printed := printed w @ [Line ''DATRAS client not set'']\<rparr>)
       \<and> getHLdata self survey year quarter translate_sps limit_download w =
           (ReturnsNone, w\<lparr>printed := printed w @ [Line ''DATRAS client not set'']\<rparr>)
       \<and> getSurveyList self w =
           (ReturnsNone, w\<lparr>printed := printed w @ [Line ''DATRAS client not set'']\<rparr>)
       \<and> getSurveyYearList self survey w =
           (ReturnsNone, w\<lparr>printed := printed w @ [Line ''DATRAS client not set'']\<rparr>)
       \<and> getSurveyYearQuarterList self survey year limit_download w =
           (ReturnsNone, w\<lparr>printed := printed w @ [Line ''DATRAS client not set'']\<rparr>)"
  using assms
  by (simp add: getHHdata_unset getHLdata_unset getSurveyList_unset getSurveyYearList_unset
      getSurveyYearQuarterList_unset print_def)

theorem client_not_set_returns_none_witness:
  "datras_client (init (\<lambda>url. Inl TransportError) (\<lambda>url. Inr sample_worms) ''datras'' ''worms'' 5
                   :: nat client) = None
   \<and> getHHdata offline_client (PStr ''SP-ARSA'') (PList [PInt 2010, PInt 2011]) (PInt 1) True fresh =
       (ReturnsNone, \<lparr>remote = 0, calls = [], printed = [Line ''DATRAS client not set'']\<rparr>)
   \<and> getHLdata offline_client (PStr ''SP-ARSA'') (PList [PInt 2010, PInt 2011]) (PInt 1) True True fresh =
       (ReturnsNone, \<lparr>remote = 0, calls = [], printed = [Line ''DATRAS client not set'']\<rparr>)
   \<and> getSurveyList offline_client fresh =
       (ReturnsNone, \<lparr>remote = 0, calls = [], printed = [Line ''DATRAS client not set'']\<rparr>)
   \<and> getSurveyYearList offline_client (PStr ''SP-ARSA'') fresh =
       (ReturnsNone, \<lparr>remote = 0, calls = [], printed = [Line ''DATRAS client not set'']\<rparr>)
   \<and> getSurveyYearQuarterList offline_client (PStr ''SP-ARSA'') (PList [PInt 2010, PInt 2011]) True fresh =
       (ReturnsNone, \<lparr>remote = 0, calls = [], printed = [Line ''DATRAS client not set'']\<rparr>)"
  using client_not_set_returns_none [of offline_client "PStr ''SP-ARSA''"
      "PList [PInt 2010, PInt 2011]" "PInt 1" True fresh True]
  by (simp add: offline_client_fields init_datras_client fresh_def)

text \<open>
  C10. A scalar argument is the same as the singleton list of it: when \<open>survey\<close>,
  \<open>year\<close> and \<open>quarter\<close> are not lists, each of \<^verbatim>\<open>getHHdata\<close>, \<^verbatim>\<open>getHLdata\<close>,
  \<^verbatim>\<open>getSurveyYearList\<close> and \<^verbatim>\<open>getSurveyYearQuarterList\<close> gives the same result and the
  same world (remote calls, printed lines, state of the remote side) as on the singleton
  lists.
\<close>

theorem scalar_argument_is_singleton_list:
  assumes "\<not> is_list survey" and "\<not> is_list year" and "\<not> is_list quarter"
  shows "getHHdata self survey year quarter limit_download w =
           getHHdata self (PList [survey]) (PList [year]) (PList [quarter]) limit_download w
       \<and> getHLdata self survey year quarter translate_sps limit_download w =
           getHLdata self (PList [survey]) (PList [year]) (PList [quarter]) translate_sps
             limit_download w
       \<and> getSurveyYearList self survey w = getSurveyYearList self (PList [survey]) w
       \<and> getSurveyYearQuarterList self survey year limit_download w =
           getSurveyYearQuarterList self (PList [survey]) (PList [year]) limit_download w"
proof -
  have survey: "listify survey = listify (PList [survey])"
    using assms(1) by (simp add: listify_scalar)
  have year: "listify year = listify (PList [year])"
    using assms(2) by (simp add: listify_scalar)
  have quarter: "listify quarter = listify (PList [quarter])"
    using assms(3) by (simp add: listify_scalar)
  show ?thesis
    unfolding getHHdata_def getHLdata_def getSurveyYearList_def getSurveyYearQuarterList_def
      survey year quarter
    by simp
qed

theorem scalar_argument_is_singleton_list_witness:
  "\<not> is_list (PStr ''SP-ARSA'') \<and> \<not> is_list (PInt 2010) \<and> \<not> is_list (PInt 1)
   \<and> getHHdata sample_client (PStr ''SP-ARSA'') (PInt 2010) (PInt 1) True fresh =
       getHHdata sample_client (PList [PStr ''SP-ARSA'']) (PList [PInt 2010]) (PList [PInt 1]) True fresh
   \<and> getHLdata sample_client (PStr ''SP-ARSA'') (PInt 2010) (PInt 1) True True fresh =
       getHLdata sample_client (PList [PStr ''SP-ARSA'']) (PList [PInt 2010]) (PList [PInt 1]) True True fresh
   \<and> getSurveyYearList sample_client (PStr ''SP-ARSA'') fresh =
       getSurveyYearList sample_client (PList [PStr ''SP-ARSA'']) fresh
   \<and> getSurveyYearQuarterList sample_client (PStr ''SP-ARSA'') (PInt 2010) True fresh =
       getSurveyYearQuarterList sample_client (PList [PStr ''SP-ARSA'']) (PList [PInt 2010]) True fresh
   \<and> fst (getHHdata sample_client (PStr ''SP-ARSA'') (PInt 2010) (PInt 1) True fresh) =
       Returns [[(''Ship'', SVal ''ARG''), (''HaulNo'', IVal 1)]]"
  using scalar_argument_is_singleton_list [of "PStr ''SP-ARSA''" "PInt 2010" "PInt 1"
      sample_client True fresh True]
  by (simp add: getHHdata_proceeds [OF sample_client_fields(1)] sample_client_fields
      hh_requests_def product3_def downloads_def sample_datras_def fresh_def clean_def
      string_fields_columns_def columns_def object_dtype_def cell_at_def clean_row_def
      strip_def isspace_def)

text \<open>
  C3. When \<^verbatim>\<open>getHHdata\<close> passes the limit check, the remote calls it adds to the log are
  the calls of the elements of \<^verbatim>\<open>product(survey, year, quarter)\<close>, one for each element
  and in the order of the product, whatever the service answers (a fault included). An
  element occurs in the product as often as its components occur in the three lists, so
  once when the lists have no repetition.
\<close>

theorem one_call_per_combination:
  assumes "datras_client self = Some svc"
    and "\<not> (limit_download \<and>
            int (length (listify survey) * length (listify year) * length (listify quarter))
              > download_limits self)"
  shows "calls (snd (getHHdata self survey year quarter limit_download w)) =
           calls w @ map (\<lambda>(s, y, q). Datras (GetHHdata s y q))
                       (product3 (listify survey) (listify year) (listify quarter))
       \<and> count_list (product3 (listify survey) (listify year) (listify quarter)) (s, y, q) =
           count_list (listify survey) s * count_list (listify year) y
             * count_list (listify quarter) q"
  by (simp add: getHHdata_proceeds [OF assms] print_def after_requests_def hh_requests_def
      count_list_product3 comp_def split_def)

theorem one_call_per_combination_witness:
  "datras_client sample_client = Some sample_datras
   \<and> \<not> (True \<and> int (length (listify (PStr ''SP-ARSA'')) *
                    length (listify (PList [PInt 2010, PInt 2011, PInt 2012])) *
                    length (listify (PInt 1))) > download_limits sample_client)
   \<and> fst (sample_datras (GetHHdata (PStr ''SP-ARSA'') (PInt 2011) (PInt 1)) 1) = Fault
   \<and> calls (snd (getHHdata sample_client (PStr ''SP-ARSA'')
                   (PList [PInt 2010, PInt 2011, PInt 2012]) (PInt 1) True fresh)) =
       [Datras (GetHHdata (PStr ''SP-ARSA'') (PInt 2010) (PInt 1)),
        Datras (GetHHdata (PStr ''SP-ARSA'') (PInt 2011) (PInt 1)),
        Datras (GetHHdata (PStr ''SP-ARSA'') (PInt 2012) (PInt 1))]"
  using one_call_per_combination [of sample_client sample_datras True "PStr ''SP-ARSA''"
      "PList [PInt 2010, PInt 2011, PInt 2012]" "PInt 1" fresh]
  by (simp add: sample_client_fields product3_def fresh_def sample_datras_def)





text \<open>
  C1. With \<^verbatim>\<open>limit_download=True\<close>, when the number of combinations exceeds
  \<^verbatim>\<open>download_limits\<close>, each of \<^verbatim>\<open>getHHdata\<close>, \<^verbatim>\<open>getHLdata\<close> and
  \<^verbatim>\<open>getSurveyYearQuarterList\<close> returns \<^verbatim>\<open>None\<close> and changes the world by printed
  lines only (no remote call); otherwise the limit does not stand in the way: the method
  does what it does with \<^verbatim>\<open>limit_download=False\<close>, and with a client that is set it
  sends the request of every combination.
\<close>

theorem over_the_limit_nothing_is_downloaded:
  "(let n = length (listify survey) * length (listify year) * length (listify quarter);
        stopped =
          (ReturnsNone,
           w\<lparr>printed := printed w @
               (case datras_client self of
                  None \<Rightarrow> [Line ''DATRAS client not set'']
                | Some svc \<Rightarrow> [limit_message (download_limits self), exiting_message n])\<rparr>)
    in (int n > download_limits self \<longrightarrow>
          getHHdata self survey year quarter True w = stopped
        \<and> getHLdata self survey year quarter translate_sps True w = stopped)
     \<and> (\<not> int n > download_limits self \<longrightarrow>
          getHHdata self survey year quarter True w = getHHdata self survey year quarter False w
        \<and> getHLdata self survey year quarter translate_sps True w =
            getHLdata self survey year quarter translate_sps False w
        \<and> (\<forall>svc. datras_client self = Some svc \<longrightarrow>
              calls (snd (getHHdata self survey year quarter True w)) =
                calls w @ map Datras (hh_requests survey year quarter)
            \<and> (\<exists>codes. calls (snd (getHLdata self survey year quarter translate_sps True w)) =
                  calls w @ map Datras (hl_requests survey year quarter) @ map Worms codes))))
   \<and> (let n = length (listify survey) * length (listify year);
          stopped =
            (ReturnsNone,
             w\<lparr>printed := printed w @
                 (case datras_client self of
                    None \<Rightarrow> [Line ''DATRAS client not set'']
                  | Some svc \<Rightarrow> [limit_message (download_limits self), exiting_message n])\<rparr>)
      in (int n > download_limits self \<longrightarrow>
            getSurveyYearQuarterList self survey year True w = stopped)
       \<and> (\<not> int n > download_limits self \<longrightarrow>
            getSurveyYearQuarterList self survey year True w =
              getSurveyYearQuarterList self survey year False w
          \<and> (\<forall>svc. datras_client self = Some svc \<longrightarrow>
                calls (snd (getSurveyYearQuarterList self survey year True w)) =
                  calls w @ map Datras (syql_requests survey year))))"
proof -
  let ?n3 = "length (listify survey) * length (listify year) * length (listify quarter)"
  let ?n2 = "length (listify survey) * length (listify year)"
  let ?stopped = "\<lambda>n. (ReturnsNone,
           w\<lparr>printed := printed w @
               (case datras_client self of
                  None \<Rightarrow> [Line ''DATRAS client not set'']
                | Some svc \<Rightarrow> [limit_message (download_limits self), exiting_message n])\<rparr>)"
  have hh_stop: "getHHdata self survey year quarter True w = ?stopped ?n3"
    if "int ?n3 > download_limits self"
  proof (cases "datras_client self")
    case None
    then show ?thesis by (simp add: getHHdata_unset print_def)
  next
    case (Some svc)
    with that show ?thesis by (simp add: getHHdata_blocked [OF Some] print_def)
  qed
  have hl_stop: "getHLdata self survey year quarter translate_sps True w = ?stopped ?n3"
    if "int ?n3 > download_limits self"
  proof (cases "datras_client self")
    case None
    then show ?thesis by (simp add: getHLdata_unset print_def)
  next
    case (Some svc)
    with that show ?thesis by (simp add: getHLdata_blocked [OF Some] print_def)
  qed
  have syql_stop: "getSurveyYearQuarterList self survey year True w = ?stopped ?n2"
    if "int ?n2 > download_limits self"
  proof (cases "datras_client self")
    case None
    then show ?thesis by (simp add: getSurveyYearQuarterList_unset print_def)
  next
    case (Some svc)
    with that show ?thesis by (simp add: getSurveyYearQuarterList_blocked [OF Some] print_def)
  qed
  have hh_same: "getHHdata self survey year quarter True w =
      getHHdata self survey year quarter False w"
    if "\<not> int ?n3 > download_limits self"
  proof (cases "datras_client self")
    case None
    then show ?thesis by (simp add: getHHdata_unset)
  next
    case (Some svc)
    from that have on: "\<not> (True \<and> int ?n3 > download_limits self)"
      and off: "\<not> (False \<and> int ?n3 > download_limits self)" by simp_all
    show ?thesis
      by (simp only: getHHdata_proceeds [OF Some on] getHHdata_proceeds [OF Some off])
  qed
  have hl_same: "getHLdata self survey year quarter translate_sps True w =
      getHLdata self survey year quarter translate_sps False w"
    if "\<not> int ?n3 > download_limits self"
  proof (cases "datras_client self")
    case None
    then show ?thesis by (simp add: getHLdata_unset)
  next
    case (Some svc)
    from that have on: "\<not> (True \<and> int ?n3 > download_limits self)"
      and off: "\<not> (False \<and> int ?n3 > download_limits self)" by simp_all
    show ?thesis
      by (simp only: getHLdata_proceeds [OF Some on] getHLdata_proceeds [OF Some off])
  qed
  have syql_same: "getSurveyYearQuarterList self survey year True w =
      getSurveyYearQuarterList self survey year False w"
    if "\<not> int ?n2 > download_limits self"
  proof (cases "datras_client self")
    case None
    then show ?thesis by (simp add: getSurveyYearQuarterList_unset)
  next
    case (Some svc)
    from that have on: "\<not> (True \<and> int ?n2 > download_limits self)"
      and off: "\<not> (False \<and> int ?n2 > download_limits self)" by simp_all
    show ?thesis
      by (simp only: getSurveyYearQuarterList_proceeds [OF Some on]
          getSurveyYearQuarterList_proceeds [OF Some off])
  qed
  have hh_calls: "calls (snd (getHHdata self survey year quarter True w)) =
      calls w @ map Datras (hh_requests survey year quarter)"
    if "\<not> int ?n3 > download_limits self" and "datras_client self = Some svc" for svc
  proof -
    from that(1) have gate: "\<not> (True \<and> int ?n3 > download_limits self)" by simp
    show ?thesis
      by (simp add: getHHdata_proceeds [OF that(2) gate] print_def after_requests_def)
  qed
  have hl_calls: "\<exists>codes. calls (snd (getHLdata self survey year quarter translate_sps True w)) =
      calls w @ map Datras (hl_requests survey year quarter) @ map Worms codes"
    if "\<not> int ?n3 > download_limits self" and "datras_client self = Some svc" for svc
  proof -
    from that(1) have gate: "\<not> (True \<and> int ?n3 > download_limits self)" by simp
    show ?thesis by (rule getHLdata_proceeds_calls [OF that(2) gate])
  qed
  have syql_calls: "calls (snd (getSurveyYearQuarterList self survey year True w)) =
      calls w @ map Datras (syql_requests survey year)"
    if "\<not> int ?n2 > download_limits self" and "datras_client self = Some svc" for svc
  proof -
    from that(1) have gate: "\<not> (True \<and> int ?n2 > download_limits self)" by simp
    show ?thesis
      by (simp add: getSurveyYearQuarterList_proceeds [OF that(2) gate] print_def
          after_requests_def)
  qed
  show ?thesis
    unfolding Let_def
    by (intro conjI impI allI)
      (erule hh_stop hl_stop syql_stop hh_same hl_same syql_same
        | erule hh_calls hl_calls syql_calls, assumption)+
qed

theorem over_the_limit_nothing_is_downloaded_witness:
  "int (length (listify (PList [PStr ''SP-ARSA'', PStr ''SP-NORTH''])) *
        length (listify (PList [PInt 2010, PInt 2011, PInt 2012])) *
        length (listify (PInt 1))) > download_limits sample_client
   \<and> getHHdata sample_client (PList [PStr ''SP-ARSA'', PStr ''SP-NORTH''])
        (PList [PInt 2010, PInt 2011, PInt 2012]) (PInt 1) True fresh =
       (ReturnsNone,
        \<lparr>remote = 0, calls = [],
           printed = [Line ''Data download is limited to 5 datasets.'',
                      Line ''Your are trying to download 6 datasets. Exiting'']\<rparr>)
   \<and> getHLdata sample_client (PList [PStr ''SP-ARSA'', PStr ''SP-NORTH''])
        (PList [PInt 2010, PInt 2011, PInt 2012]) (PInt 1) True True fresh =
       (ReturnsNone,
        \<lparr>remote = 0, calls = [],
           printed = [Line ''Data download is limited to 5 datasets.'',
                      Line ''Your are trying to download 6 datasets. Exiting'']\<rparr>)
   \<and> \<not> int (length (listify (PList [PStr ''SP-ARSA'', PStr ''SP-NORTH''])) *
            length (listify (PList [PInt 2010, PInt 2011])))
          > download_limits sample_client
   \<and> calls (snd (getSurveyYearQuarterList sample_client (PList [PStr ''SP-ARSA'', PStr ''SP-NORTH''])
                   (PList [PInt 2010, PInt 2011]) True fresh)) =
       [Datras (GetSurveyYearQuarterList (PStr ''SP-ARSA'') (PInt 2010)),
        Datras (GetSurveyYearQuarterList (PStr ''SP-ARSA'') (PInt 2011)),
        Datras (GetSurveyYearQuarterList (PStr ''SP-NORTH'') (PInt 2010)),
        Datras (GetSurveyYearQuarterList (PStr ''SP-NORTH'') (PInt 2011))]"
proof -
  let ?surveys = "PList [PStr ''SP-ARSA'', PStr ''SP-NORTH'']"
  have over: "int (length (listify ?surveys) *
        length (listify (PList [PInt 2010, PInt 2011, PInt 2012])) *
        length (listify (PInt 1))) > download_limits sample_client"
    and under: "\<not> int (length (listify ?surveys) * length (listify (PList [PInt 2010, PInt 2011])))
        > download_limits sample_client"
    by (simp_all add: sample_client_fields)
  have stopped: "getHHdata sample_client ?surveys (PList [PInt 2010, PInt 2011, PInt 2012])
        (PInt 1) True fresh =
       (ReturnsNone,
        \<lparr>remote = 0, calls = [],
           printed = [Line ''Data download is limited to 5 datasets.'',
                      Line ''Your are trying to download 6 datasets. Exiting'']\<rparr>)
     \<and> getHLdata sample_client ?surveys (PList [PInt 2010, PInt 2011, PInt 2012])
        (PInt 1) True True fresh =
       (ReturnsNone,
        \<lparr>remote = 0, calls = [],
           printed = [Line ''Data download is limited to 5 datasets.'',
                      Line ''Your are trying to download 6 datasets. Exiting'']\<rparr>)"
    using over_the_limit_nothing_is_downloaded [of ?surveys
        "PList [PInt 2010, PInt 2011, PInt 2012]" "PInt 1" fresh sample_client True]
    by (simp add: Let_def sample_client_fields limit_message_def exiting_message_def
        show_int_def show_nat.simps fresh_def)
  have "calls (snd (getSurveyYearQuarterList sample_client ?surveys
          (PList [PInt 2010, PInt 2011]) True fresh)) =
      calls fresh @ map Datras (syql_requests ?surveys (PList [PInt 2010, PInt 2011]))"
    using over_the_limit_nothing_is_downloaded [of ?surveys "PList [PInt 2010, PInt 2011]"
        "PInt 1" fresh sample_client True] under sample_client_fields(1)
    unfolding Let_def by blast
  then have proceeds: "calls (snd (getSurveyYearQuarterList sample_client ?surveys
          (PList [PInt 2010, PInt 2011]) True fresh)) =
       [Datras (GetSurveyYearQuarterList (PStr ''SP-ARSA'') (PInt 2010)),
        Datras (GetSurveyYearQuarterList (PStr ''SP-ARSA'') (PInt 2011)),
        Datras (GetSurveyYearQuarterList (PStr ''SP-NORTH'') (PInt 2010)),
        Datras (GetSurveyYearQuarterList (PStr ''SP-NORTH'') (PInt 2011))]"
    by (simp add: syql_requests_def fresh_def)
  from over stopped under proceeds show ?thesis by (intro conjI) (erule conjunct1 conjunct2 | assumption)+
qed






text \<open>
  C4 fails for \<^verbatim>\<open>getHLdata\<close> with \<^verbatim>\<open>translate_sps=True\<close>. The sample service faults on
  the request for 2011. The fault is swallowed and the summary line is printed, but then
  the species look-up raises \<^verbatim>\<open>AttributeError\<close> on the empty table and the caller gets
  no table; with \<^verbatim>\<open>translate_sps=False\<close> the same call returns the empty table.
\<close>

theorem getHLdata_translate_raises_when_nothing_is_downloaded:
  "fst (sample_datras (GetHLdata (PStr ''SP-ARSA'') (PInt 2011) (PInt 1)) (remote fresh)) = Fault
   \<and> getHLdata sample_client (PStr ''SP-ARSA'') (PInt 2011) (PInt 1) True True fresh =
       (Raises AttributeError,
        \<lparr>remote = 1, calls = [Datras (GetHLdata (PStr ''SP-ARSA'') (PInt 2011) (PInt 1))],
           printed = [Line ''0 out of 1 Datasets downloaded'']\<rparr>)
   \<and> getHLdata sample_client (PStr ''SP-ARSA'') (PInt 2011) (PInt 1) False True fresh =
       (Returns [],
        \<lparr>remote = 1, calls = [Datras (GetHLdata (PStr ''SP-ARSA'') (PInt 2011) (PInt 1))],
           printed = [Line ''0 out of 1 Datasets downloaded'']\<rparr>)"
  by (simp add: getHLdata_proceeds [OF sample_client_fields(1)] sample_client_fields Let_def
      hl_requests_def product3_def downloads_def n_downloaded_def after_requests_def
      sample_datras_def fresh_def translate_def no_rows_no_column print_def
      summary_message_def show_int_def show_nat.simps clean_def)

end
